theory Spec2Isabelle
  imports Main "HOL-Library.Sublist"
begin

section \<open>The surgical case log: tables, numbering, storage and filtering\<close>

text \<open>
  The program (\<^verbatim>\<open>app.py\<close>) keeps its case log in one pandas table. Its core is a
  handful of library calls: \<^verbatim>\<open>pd.read_csv\<close> and \<^verbatim>\<open>DataFrame.to_csv\<close> for storage,
  \<^verbatim>\<open>df['Number'].max() + 1\<close> for numbering, \<^verbatim>\<open>pd.concat\<close> for appending and
  \<^verbatim>\<open>Series.str.contains\<close> for filtering. The embedding therefore consists of the
  program's own functions, written as they are in the source, over a model of the part
  of pandas they call.

  The model of pandas covers a fragment, and says so in its results: a call whose
  outcome lies outside the fragment (floating-point values, boolean columns, regular
  expression operators other than the dot, tables whose column names differ) returns
  \<open>Inl NotModelled\<close>, and no theorem below draws a conclusion from that value. Python's
  exceptions are the other \<open>Inl\<close> values. Integers are unbounded (\<open>int\<close>); where pandas
  stores them in 64 bits, the range appears as an explicit condition. Text is
  \<open>string\<close>; upper and lower case are identified for the ASCII letters.
\<close>

subsection \<open>Cells, columns and tables\<close>

text \<open>
  A cell is a missing value (\<open>NaN\<close>), an integer or a text. A column has one of the
  three storage types met by the program; a \<open>Float64\<close> column of the fragment holds
  missing values only.
\<close>

datatype cell = NaN | I int | S string

datatype dtype = Int64 | Float64 | Object

datatype error = KeyError string | TypeError | AttributeError | EmptyDataError | NotModelled

record frame =
  columns :: "(string \<times> dtype) list"
  rows :: "cell list list"

type_synonym series = "dtype \<times> cell list"

definition names :: "frame \<Rightarrow> string list" where
  "names df = map fst (columns df)"

definition cell_at :: "cell list \<Rightarrow> nat \<Rightarrow> cell" where
  "cell_at r j = (if j < length r then r ! j else NaN)"

fun index_of :: "'a \<Rightarrow> 'a list \<Rightarrow> nat option" where
  "index_of x [] = None"
| "index_of x (y # ys) = (if x = y then Some 0 else map_option Suc (index_of x ys))"


text \<open>\<^verbatim>\<open>df[c]\<close>: the column named \<open>c\<close>, or \<^verbatim>\<open>KeyError\<close>.\<close>

definition getitem :: "frame \<Rightarrow> string \<Rightarrow> error + series" where
  "getitem df c =
     (case index_of c (names df) of
        None \<Rightarrow> Inl (KeyError c)
      | Some j \<Rightarrow> Inr (snd (columns df ! j), map (\<lambda>r. cell_at r j) (rows df)))"

definition bind_err :: "error + 'a \<Rightarrow> ('a \<Rightarrow> error + 'b) \<Rightarrow> error + 'b" where
  "bind_err m f = (case m of Inl e \<Rightarrow> Inl e | Inr x \<Rightarrow> f x)"

subsection \<open>Numbering\<close>




subsection \<open>Appending a case\<close>









subsection \<open>The durable file\<close>

text \<open>
  The file system maps a path to the content of the file there. The content of a
  comma-separated file is modelled after the quoting layer: the list of its non-blank
  lines, each the list of its field texts, the header line first. The empty list is
  a file of length zero.
\<close>

type_synonym csv = "string list list"

type_synonym fs = "string \<rightharpoonup> csv"

definition DATA_FILE :: string where
  "DATA_FILE = ''surgical_log.csv''"

subsubsection \<open>Writing: \<^verbatim>\<open>to_csv\<close>\<close>






subsubsection \<open>Reading: \<^verbatim>\<open>read_csv\<close>\<close>

text \<open>
  The reader decides the storage type of a column from all the fields of the column.
  A field is a marker of a missing value, or a decimal integer that fits 64 bits, or
  something else. \<open>maybe_number\<close> accepts every text that the reader could take for a
  floating-point number, an integer with blanks around it, or a boolean (and some more:
  it only has to err on this side); a field that is none of these is certainly a text.
\<close>

definition na_values :: "string list" where
  "na_values =
     ['''', ''#N/A'', ''#N/A N/A'', ''#NA'', ''-1.#IND'', ''-1.#QNAN'', ''-NaN'',
      ''-nan'', ''1.#IND'', ''1.#QNAN'', ''<NA>'', ''N/A'', ''NA'', ''NULL'', ''NaN'',
      ''None'', ''n/a'', ''nan'', ''null'']"

fun parse_digits :: "string \<Rightarrow> nat \<Rightarrow> nat option" where
  "parse_digits [] acc = Some acc"
| "parse_digits (c # cs) acc =
     (case index_of c ''0123456789'' of
        None \<Rightarrow> None
      | Some d \<Rightarrow> parse_digits cs (10 * acc + d))"

fun parse_int :: "string \<Rightarrow> int option" where
  "parse_int [] = None"
| "parse_int (c # cs) =
     (if c = CHR ''-'' then (if cs = [] then None
                             else map_option (\<lambda>n. - int n) (parse_digits cs 0))
      else if c = CHR ''+'' then (if cs = [] then None
                                  else map_option int (parse_digits cs 0))
      else map_option int (parse_digits (c # cs) 0))"

definition in_int64 :: "int \<Rightarrow> bool" where
  "in_int64 n \<longleftrightarrow> - (2 ^ 63) \<le> n \<and> n < 2 ^ 63"

definition parse_int64 :: "string \<Rightarrow> int option" where
  "parse_int64 s =
     (case parse_int s of
        None \<Rightarrow> None
      | Some n \<Rightarrow> if in_int64 n then Some n else None)"

definition lower :: "char \<Rightarrow> char" where
  "lower c =
     (case map_of (zip ''ABCDEFGHIJKLMNOPQRSTUVWXYZ'' ''abcdefghijklmnopqrstuvwxyz'') c of
        None \<Rightarrow> c
      | Some l \<Rightarrow> l)"

definition is_digit :: "char \<Rightarrow> bool" where
  "is_digit c \<longleftrightarrow> c \<in> set ''0123456789''"

definition is_space :: "char \<Rightarrow> bool" where
  "is_space c \<longleftrightarrow> c \<in> set [CHR '' '', CHR 0x09, CHR 0x0A, CHR 0x0B, CHR 0x0C, CHR 0x0D]"

fun drop_sign :: "string \<Rightarrow> string" where
  "drop_sign [] = []"
| "drop_sign (c # cs) = (if c = CHR ''+'' \<or> c = CHR ''-'' then cs else c # cs)"

definition strip :: "string \<Rightarrow> string" where
  "strip s = rev (dropWhile is_space (rev (dropWhile is_space s)))"

definition maybe_number :: "string \<Rightarrow> bool" where
  "maybe_number s =
     (let u = drop_sign (dropWhile is_space s);
          v = dropWhile (\<lambda>c. is_digit c \<or> c = CHR ''.'') u;
          w = (case v of
                 [] \<Rightarrow> []
               | c # cs \<Rightarrow> if c = CHR ''e'' \<or> c = CHR ''E''
                           then dropWhile is_digit (drop_sign cs) else v)
      in dropWhile is_space w = [] \<or>
         map lower (drop_sign (strip s)) \<in>
           set [''inf'', ''infinity'', ''nan'', ''true'', ''false''])"

datatype kind = KNa | KInt | KOther | KText

definition classify :: "string \<Rightarrow> kind" where
  "classify s =
     (if s \<in> set na_values then KNa
      else if parse_int64 s \<noteq> None then KInt
      else if maybe_number s then KOther
      else KText)"

text \<open>
  The storage type of a column with the fields \<open>ts\<close>. Without rows it is \<open>Object\<close>.
  Fields that are all missing give \<open>Float64\<close>, integers throughout give \<open>Int64\<close>, and
  one field that is certainly a text makes the column \<open>Object\<close>. The other columns hold
  floating-point numbers or booleans, or cannot be told from such.
\<close>

definition col_dtype :: "string list \<Rightarrow> dtype option" where
  "col_dtype ts =
     (if ts = [] then Some Object
      else if list_all (\<lambda>t. classify t = KNa) ts then Some Float64
      else if list_all (\<lambda>t. classify t = KInt) ts then Some Int64
      else if list_ex (\<lambda>t. classify t = KText) ts then Some Object
      else None)"

text \<open>The value of a field in a column of a given storage type. In an \<open>Object\<close>
  column the fields stay the texts they are, the markers of missing values apart.\<close>

fun convert :: "dtype \<Rightarrow> string \<Rightarrow> cell" where
  "convert Float64 t = NaN"
| "convert Int64 t = (case parse_int64 t of None \<Rightarrow> NaN | Some n \<Rightarrow> I n)"
| "convert Object t = (if t \<in> set na_values then NaN else S t)"

definition field_at :: "string list \<Rightarrow> nat \<Rightarrow> string" where
  "field_at r j = (if j < length r then r ! j else [])"

text \<open>
  \<^verbatim>\<open>pd.read_csv(path)\<close> on the content of the file. A file of length zero raises
  \<^verbatim>\<open>EmptyDataError\<close>. The first line gives the column names, whatever they are; a line
  with fewer fields than the header is filled with missing values. Repeated or empty
  column names (which the reader renames) and lines longer than the header (which
  become an index or a parser error) are outside the fragment.
\<close>

definition read_csv :: "csv \<Rightarrow> error + frame" where
  "read_csv f =
     (case f of
        [] \<Rightarrow> Inl EmptyDataError
      | hdr # body \<Rightarrow>
          if hdr = [] \<or> \<not> distinct hdr \<or> [] \<in> set hdr \<or>
             list_ex (\<lambda>r. length hdr < length r) body
          then Inl NotModelled
          else (case those (map (\<lambda>j. col_dtype (map (\<lambda>r. field_at r j) body))
                              [0..<length hdr]) of
                  None \<Rightarrow> Inl NotModelled
                | Some ds \<Rightarrow>
                    Inr \<lparr>columns = zip hdr ds,
                         rows = map (\<lambda>r. map (\<lambda>j. convert (ds ! j) (field_at r j))
                                             [0..<length hdr]) body\<rparr>))"

subsubsection \<open>\<^verbatim>\<open>load_data\<close> and \<^verbatim>\<open>save_data\<close>\<close>

text \<open>\<^verbatim>\<open>pd.DataFrame(columns=[...])\<close>: no rows; columns without values are \<open>Object\<close>.\<close>

definition DataFrame_columns :: "string list \<Rightarrow> frame" where
  "DataFrame_columns cs = \<lparr>columns = map (\<lambda>c. (c, Object)) cs, rows = []\<rparr>"

definition load_data :: "fs \<Rightarrow> error + frame" where
  "load_data files =
     (case files DATA_FILE of
        Some f \<Rightarrow> read_csv f
      | None \<Rightarrow> Inr (DataFrame_columns
                      [''Number'', ''Patient_ID'', ''Age'', ''Date'', ''Hospital'',
                       ''Consultant'', ''Diagnosis'', ''Procedure'', ''Anaesthesia'',
                       ''Outcome'', ''Notes'', ''My_Role'', ''Primary_Surgeon'',
                       ''Assistant'']))"



subsection \<open>Logging a case\<close>



subsection \<open>Filtering\<close>

text \<open>
  \<^verbatim>\<open>Series.str.contains(pat, case=False, na=False)\<close> takes \<open>pat\<close> for a regular
  expression (\<^verbatim>\<open>regex=True\<close> is the default) and searches each text for a match,
  ignoring case. The fragment has the patterns made of ordinary characters and of the
  dot, which stands for any character but the line feed; the other operators are
  outside it.
\<close>

definition operators :: string where
  "operators =
     [CHR ''^'', CHR ''$'', CHR ''*'', CHR ''+'', CHR ''?'', CHR ''{'', CHR ''}'',
      CHR ''['', CHR '']'', CHR 0x5C, CHR ''|'', CHR ''('', CHR '')'']"

definition atom_matches :: "char \<Rightarrow> char \<Rightarrow> bool" where
  "atom_matches p c = (if p = CHR ''.'' then c \<noteq> CHR 0x0A else lower p = lower c)"

fun match_here :: "string \<Rightarrow> string \<Rightarrow> bool" where
  "match_here [] s = True"
| "match_here (p # ps) [] = False"
| "match_here (p # ps) (c # cs) = (atom_matches p c \<and> match_here ps cs)"

fun search :: "string \<Rightarrow> string \<Rightarrow> bool" where
  "search pat [] = match_here pat []"
| "search pat (c # cs) = (match_here pat (c # cs) \<or> search pat cs)"

text \<open>
  The accessor \<^verbatim>\<open>.str\<close> exists for columns of texts only: it raises \<^verbatim>\<open>AttributeError\<close>
  on an \<open>Int64\<close> or \<open>Float64\<close> column, and on an \<open>Object\<close> column whose values are all
  integers. An \<open>Object\<close> column without any value is accepted.
\<close>

fun is_text :: "cell \<Rightarrow> bool" where
  "is_text (S s) = True"
| "is_text c = False"

definition str_accessor :: "series \<Rightarrow> bool" where
  "str_accessor s \<longleftrightarrow>
     fst s = Object \<and>
     (filter (\<lambda>c. c \<noteq> NaN) (snd s) = [] \<or> list_ex is_text (snd s))"

text \<open>The result for one cell; what is not a text gives a missing result, which
  \<^verbatim>\<open>na=False\<close> turns into \<open>False\<close>.\<close>

fun contains_cell :: "string \<Rightarrow> cell \<Rightarrow> bool" where
  "contains_cell pat (S v) = search pat v"
| "contains_cell pat c = False"

definition str_contains :: "series \<Rightarrow> string \<Rightarrow> error + bool list" where
  "str_contains s pat =
     (if \<not> str_accessor s then Inl AttributeError
      else if list_ex (\<lambda>c. c \<in> set operators) pat then Inl NotModelled
      else Inr (map (contains_cell pat) (snd s)))"

text \<open>\<^verbatim>\<open>df[mask]\<close>: the rows where the mask is true, in their order; the columns
  keep their storage types.\<close>

definition select_rows :: "frame \<Rightarrow> bool list \<Rightarrow> frame" where
  "select_rows df msk = df\<lparr>rows := map fst (filter snd (zip (rows df) msk))\<rparr>"

text \<open>
  One filter of the third tab,
  \<^verbatim>\<open>filtered_df[filtered_df[col].str.contains(pat, case=False, na=False)]\<close>,
  and the two of them as the program applies them: each only when its pattern is not
  the empty text.
\<close>

definition filter_by :: "string \<Rightarrow> string \<Rightarrow> frame \<Rightarrow> error + frame" where
  "filter_by col pat df =
     bind_err (getitem df col) (\<lambda>s.
     bind_err (str_contains s pat) (\<lambda>msk. Inr (select_rows df msk)))"

definition filtered_df :: "frame \<Rightarrow> string \<Rightarrow> string \<Rightarrow> error + frame" where
  "filtered_df df filter_procedure filter_diagnosis =
     bind_err (if filter_procedure \<noteq> [] then filter_by ''Procedure'' filter_procedure df
               else Inr df) (\<lambda>d.
     if filter_diagnosis \<noteq> [] then filter_by ''Diagnosis'' filter_diagnosis d
     else Inr d)"

subsection \<open>The filter in the words of the specification\<close>






subsection \<open>The columns that the file keeps\<close>


subsection \<open>Tables and files of the examples\<close>









section \<open>Properties\<close>

subsection \<open>Auxiliary facts\<close>






subsection \<open>Numbering\<close>




subsection \<open>Appending\<close>












subsection \<open>Loading\<close>

text \<open>
  C8. Without a file at \<^verbatim>\<open>DATA_FILE\<close>, \<open>load_data\<close> returns a table without rows whose
  columns are the fourteen names of the log, in their fixed order.
\<close>

theorem load_data_no_file:
  assumes "files DATA_FILE = None"
  shows "\<exists>df. load_data files = Inr df \<and> rows df = [] \<and>
           names df = [''Number'', ''Patient_ID'', ''Age'', ''Date'', ''Hospital'',
                       ''Consultant'', ''Diagnosis'', ''Procedure'', ''Anaesthesia'',
                       ''Outcome'', ''Notes'', ''My_Role'', ''Primary_Surgeon'',
                       ''Assistant'']"
  using assms by (simp add: load_data_def DataFrame_columns_def names_def)

theorem load_data_no_file_witness:
  "\<exists>df. load_data Map.empty = Inr df \<and> rows df = [] \<and>
           names df = [''Number'', ''Patient_ID'', ''Age'', ''Date'', ''Hospital'',
                       ''Consultant'', ''Diagnosis'', ''Procedure'', ''Anaesthesia'',
                       ''Outcome'', ''Notes'', ''My_Role'', ''Primary_Surgeon'',
                       ''Assistant'']"
  using load_data_no_file [of Map.empty] by simp




subsection \<open>Saving\<close>




subsection \<open>Saving and loading again\<close>
























subsection \<open>Filtering\<close>














text \<open>
  How the filter treats a column read from a file in which the field is empty in
  every line: the column is a \<open>Float64\<close> column, and the filter raises.
\<close>

lemma filtered_df_all_missing:
  "filtered_df \<lparr>columns = [(''Number'', Int64), (''Procedure'', Float64)],
                 rows = [[I 1, NaN]]\<rparr> ''a'' [] = Inl AttributeError"
  by code_simp





end
